theory Spec2Isabelle
  imports Main "HOL-Library.Sublist"
begin

section \<open>Python values, exceptions and the warnings channel\<close>

text \<open>
  The module \<^verbatim>\<open>dagster/_utils/backcompat.py\<close> is embedded function by function.
  A Python call that may raise and that may touch the process-wide state of the
  \<^verbatim>\<open>warnings\<close> module is a function from that state to an outcome and a new state;
  \<open>Inl\<close> is a raised exception, \<open>Inr\<close> a returned value.
\<close>

text \<open>
  Objects that a caller can hand over where the signature asks for a \<^verbatim>\<open>str\<close>.
\<close>

datatype pyobj = PyNone | PyBool bool | PyInt int | PyStr string

text \<open>
  The warning categories the module uses: the built-in \<^verbatim>\<open>Warning\<close> and
  \<^verbatim>\<open>DeprecationWarning\<close>, and the module's own
  \<^verbatim>\<open>class ExperimentalWarning(Warning)\<close>.
\<close>

datatype category = Warning | DeprecationWarning | ExperimentalWarning

fun issubclass :: "category \<Rightarrow> category \<Rightarrow> bool" where
  "issubclass c k = (c = k \<or> k = Warning)"

text \<open>
  Exceptions. \<open>CheckError\<close> and its subclass \<open>ParameterCheckError\<close> come from
  \<^verbatim>\<open>dagster._check\<close>; \<open>WarningRaised\<close> is a warning that the channel escalated
  to an exception; \<open>OverflowError\<close> is the built-in one; \<open>OtherError\<close> stands for
  whatever a caller's own code raises.
\<close>

datatype exn =
    CheckError string
  | ParameterCheckError string
  | WarningRaised category string
  | OverflowError
  | OtherError string

text \<open>
  The standard library's \<^verbatim>\<open>warnings\<close> module is the diagnostic channel. Its
  state is the ordered list \<^verbatim>\<open>warnings.filters\<close> (searched front to back, the
  first entry whose category is a superclass of the warning's decides),
  \<^verbatim>\<open>warnings.defaultaction\<close> for a warning no entry matches, and what was handed
  to \<^verbatim>\<open>showwarning\<close> so far. A filter entry is an action and a category: the
  module only ever installs entries whose message, module and line fields match
  everything. At one occurrence of a warning the channel does one of three things,
  and these are the actions of the model: drop it, raise it, show it. (The actions
  \<^verbatim>\<open>default\<close>, \<^verbatim>\<open>module\<close> and \<^verbatim>\<open>once\<close> of the library show a
  first occurrence and drop a repeated one, depending on the interpreter's call
  stack; they are not modelled separately.)
\<close>

datatype action = Ignore | Error | Always

record diagnostic =
  d_message :: string
  d_category :: category
  d_stacklevel :: int

record warnings_state =
  filters :: "(action \<times> category) list"
  defaultaction :: action
  shown :: "diagnostic list"

type_synonym 'r prog = "warnings_state \<Rightarrow> (exn + 'r) \<times> warnings_state"

fun action_for :: "(action \<times> category) list \<Rightarrow> action \<Rightarrow> category \<Rightarrow> action" where
  "action_for [] dflt c = dflt"
| "action_for ((a, k) # fs) dflt c = (if issubclass c k then a else action_for fs dflt c)"

text \<open>
  \<^verbatim>\<open>warnings.warn(message, category, stacklevel)\<close>. The interpreter takes the
  stack level as a signed machine word (64 bits here): a Python integer outside
  that range raises \<^verbatim>\<open>OverflowError\<close> when the arguments are read, before any
  filter is looked at.
\<close>

definition fits_ssize_t :: "int \<Rightarrow> bool" where
  "fits_ssize_t n = (- (2 ^ 63) \<le> n \<and> n < 2 ^ 63)"

definition warn :: "string \<Rightarrow> category \<Rightarrow> int \<Rightarrow> unit prog" where
  "warn text c lvl s =
     (if fits_ssize_t lvl then
        (case action_for (filters s) (defaultaction s) c of
           Ignore \<Rightarrow> (Inr (), s)
         | Error \<Rightarrow> (Inl (WarningRaised c text), s)
         | Always \<Rightarrow>
             (Inr (), s\<lparr>shown := shown s @
                [\<lparr>d_message = text, d_category = c, d_stacklevel = lvl\<rparr>]\<rparr>))
      else (Inl OverflowError, s))"

text \<open>
  \<^verbatim>\<open>warnings.filterwarnings(action, category=c)\<close>: the entry goes to the front of
  the list, an equal entry already in the list being removed first.
\<close>

definition filterwarnings :: "action \<Rightarrow> category \<Rightarrow> warnings_state \<Rightarrow> warnings_state" where
  "filterwarnings a c s = s\<lparr>filters := (a, c) # remove1 (a, c) (filters s)\<rparr>"

text \<open>
  \<^verbatim>\<open>warnings.catch_warnings()\<close>: entering keeps the module's filter list in the
  context manager object and lets the module go on with a copy of it; leaving puts
  the kept list back.
\<close>

definition catch_warnings_enter :: "warnings_state \<Rightarrow> (action \<times> category) list \<times> warnings_state" where
  "catch_warnings_enter s = (filters s, s\<lparr>filters := filters s\<rparr>)"

definition catch_warnings_exit :: "(action \<times> category) list \<Rightarrow> warnings_state \<Rightarrow> warnings_state" where
  "catch_warnings_exit saved s = s\<lparr>filters := saved\<rparr>"

section \<open>Renamed parameters\<close>

text \<open>
  Modelled from the spec: \<^verbatim>\<open>check.str_param\<close> of \<^verbatim>\<open>dagster._check\<close>, which is
  not among the sources. By the spec's section 4.1 the two names are strings, used
  for the text of the failure only: the helper hands a string back and the
  resolver goes on. The spec says nothing of an argument that is not a string,
  and asks callers not to pass the empty string without saying what happens if
  they do. The model lets every string through and has the helper raise its
  parameter error for any other object; the statements about the resolver below
  are about string names only.
\<close>

definition str_param :: "pyobj \<Rightarrow> string \<Rightarrow> exn + string" where
  "str_param obj param_name =
     (case obj of PyStr v \<Rightarrow> Inr v | _ \<Rightarrow> Inl (ParameterCheckError param_name))"

text \<open>
  What a caller can pass as \<^verbatim>\<open>coerce_old_to_new\<close>: \<^verbatim>\<open>None\<close>, a callable
  object, or an object that cannot be called. A callable may itself raise or
  warn, and it has a truth value, the first argument of \<open>Callable\<close>: a function
  object counts as true, an object with \<^verbatim>\<open>__call__\<close> may count as false
  (through \<^verbatim>\<open>__bool__\<close> or \<^verbatim>\<open>__len__\<close>).
\<close>

datatype 'a coercion =
    NoCoercion
  | Callable bool "'a option \<Rightarrow> 'a option prog"
  | NotCallable

text \<open>
  Modelled from the spec: \<^verbatim>\<open>check.opt_callable_param\<close> of \<^verbatim>\<open>dagster._check\<close>,
  which is not among the sources. By the spec's section 4.1 the coercion is absent
  or a function: the helper hands \<^verbatim>\<open>None\<close> and a callable back and the resolver
  goes on. The spec says nothing of any other object; the model has the helper
  raise its parameter error for it, and no statement below is about that case.
\<close>

definition opt_callable_param :: "'a coercion \<Rightarrow> string \<Rightarrow> exn + 'a coercion" where
  "opt_callable_param obj param_name =
     (case obj of NotCallable \<Rightarrow> Inl (ParameterCheckError param_name) | _ \<Rightarrow> Inr obj)"

text \<open>
  Modelled from the spec: \<^verbatim>\<open>check.failed\<close> of \<^verbatim>\<open>dagster._check\<close>, which is not
  among the sources. It always raises; the exception carries the description it
  was given.
\<close>

definition failed :: "string \<Rightarrow> exn + 'a" where
  "failed desc = Inl (CheckError desc)"

text \<open>
  \<^verbatim>\<open>normalize_renamed_param\<close>. A value of type \<^verbatim>\<open>T\<close> is an \<open>'a option\<close>, with
  \<open>None\<close> for Python's \<^verbatim>\<open>None\<close>. The values are tested with
  \<^verbatim>\<open>is not None\<close>, the coercion with its truth value
  (\<^verbatim>\<open>if coerce_old_to_new\<close>); \<^verbatim>\<open>None\<close> counts as false.
\<close>

definition normalize_renamed_param ::
  "'a option \<Rightarrow> pyobj \<Rightarrow> 'a option \<Rightarrow> pyobj \<Rightarrow> 'a coercion \<Rightarrow> 'a option prog" where
  \<open>normalize_renamed_param new_val new_arg old_val old_arg coerce_old_to_new s =
     (case str_param new_arg ''new_arg'' of
        Inl e \<Rightarrow> (Inl e, s)
      | Inr new_name \<Rightarrow>
     (case str_param old_arg ''old_arg'' of
        Inl e \<Rightarrow> (Inl e, s)
      | Inr old_name \<Rightarrow>
     (case opt_callable_param coerce_old_to_new ''coerce_old_to_new'' of
        Inl e \<Rightarrow> (Inl e, s)
      | Inr _ \<Rightarrow>
          if new_val \<noteq> None \<and> old_val \<noteq> None then
            (failed (''Do not use deprecated "'' @ old_name
                     @ ''" now that you are using "'' @ new_name @ ''".''), s)
          else if old_val \<noteq> None then
            (case coerce_old_to_new of
               Callable truth f \<Rightarrow> if truth then f old_val s else (Inr old_val, s)
             | _ \<Rightarrow> (Inr old_val, s))
          else (Inr new_val, s))))\<close>

section \<open>Deprecation and experimental warnings\<close>

text \<open>
  \<^verbatim>\<open>deprecation_warning\<close>. The optional text is a \<open>string option\<close>; Python takes
  both \<^verbatim>\<open>None\<close> and the empty string as false.
\<close>

definition deprecation_warning ::
  "string \<Rightarrow> string \<Rightarrow> string option \<Rightarrow> int \<Rightarrow> unit prog" where
  "deprecation_warning subject breaking_version additional_warn_text stacklevel =
     warn (subject @ '' is deprecated and will be removed in '' @ breaking_version @ ''.''
           @ (case additional_warn_text of
                None \<Rightarrow> ''''
              | Some t \<Rightarrow> if t \<noteq> '''' then '' '' @ t else ''''))
          DeprecationWarning stacklevel"

definition EXPERIMENTAL_WARNING_HELP :: string where
  \<open>EXPERIMENTAL_WARNING_HELP =
     ''To mute warnings for experimental functionality, invoke''
     @ '' warnings.filterwarnings("ignore", category=dagster.ExperimentalWarning) or use''
     @ '' one of the other methods described at''
     @ '' https://docs.python.org/3/library/warnings.html#describing-warning-filters.''\<close>

definition experimental_warning :: "string \<Rightarrow> string option \<Rightarrow> int \<Rightarrow> unit prog" where
  "experimental_warning subject additional_warn_text stacklevel =
     (let extra_text =
            (case additional_warn_text of
               None \<Rightarrow> ''''
             | Some t \<Rightarrow> if t \<noteq> '''' then '' '' @ t else '''')
      in warn (subject @ '' is experimental. It may break in future versions, even between dot''
               @ '' releases.'' @ extra_text @ '' '' @ EXPERIMENTAL_WARNING_HELP)
              ExperimentalWarning stacklevel)"

section \<open>Quieting experimental warnings\<close>

text \<open>
  The context manager \<^verbatim>\<open>suppress_experimental_warnings\<close>, as a function of the
  block that runs at its \<^verbatim>\<open>yield\<close>. An exception of the block passes through
  the \<^verbatim>\<open>with warnings.catch_warnings()\<close> statement, which leaves the same way
  as after a normal end of the block.
\<close>

definition suppress_experimental_warnings :: "'r prog \<Rightarrow> 'r prog" where
  "suppress_experimental_warnings block s =
     (case catch_warnings_enter s of
        (saved, s1) \<Rightarrow>
          (case block (filterwarnings Ignore ExperimentalWarning s1) of
             (r, s2) \<Rightarrow> (r, catch_warnings_exit saved s2)))"

text \<open>
  Modelled from the spec: \<^verbatim>\<open>apply_context_manager_decorator\<close> of
  \<^verbatim>\<open>dagster._core.decorator_utils\<close>, which is not among the sources. By the
  spec's section 6, every invocation of the result acquires the scope, runs the
  original with the same arguments, releases the scope on every exit path, and
  passes the original's return value or failure through unchanged. The target is
  a callable here; for a class the collaborator does the same to each method.
\<close>

definition apply_context_manager_decorator ::
  "('a \<Rightarrow> 'r prog) \<Rightarrow> ('r prog \<Rightarrow> 'r prog) \<Rightarrow> ('a \<Rightarrow> 'r prog)" where
  "apply_context_manager_decorator fn cm = (\<lambda>args. cm (fn args))"

definition quiet_experimental_warnings :: "('a \<Rightarrow> 'r prog) \<Rightarrow> ('a \<Rightarrow> 'r prog)" where
  "quiet_experimental_warnings obj =
     apply_context_manager_decorator obj suppress_experimental_warnings"

section \<open>Functions that use the module\<close>

text \<open>
  The body of a function that reaches the channel through this module only: it
  calls \<^verbatim>\<open>experimental_warning\<close> and \<^verbatim>\<open>deprecation_warning\<close>, raises, and
  calls other such functions, plain ones and ones decorated with
  \<^verbatim>\<open>@quiet_experimental_warnings\<close>. Statements run in order; the first
  exception ends the body. A body that reconfigures the channel by itself is not
  of this kind.
\<close>

datatype stmt =
    ExperimentalCall string "string option" int
  | DeprecationCall string string "string option" int
  | RaiseStmt exn
  | PlainCall "stmt list"
  | QuietCall "stmt list"

fun exec :: "stmt \<Rightarrow> unit prog" and exec_body :: "stmt list \<Rightarrow> unit prog" where
  "exec (ExperimentalCall subject additional lvl) s = experimental_warning subject additional lvl s"
| "exec (DeprecationCall subject version additional lvl) s =
     deprecation_warning subject version additional lvl s"
| "exec (RaiseStmt e) s = (Inl e, s)"
| "exec (PlainCall body) s = exec_body body s"
| "exec (QuietCall body) s = quiet_experimental_warnings (\<lambda>_ s'. exec_body body s') () s"
| "exec_body [] s = (Inr (), s)"
| "exec_body (c # cs) s =
     (case exec c s of
        (Inl e, s') \<Rightarrow> (Inl e, s')
      | (Inr _, s') \<Rightarrow> exec_body cs s')"



text \<open>
  Three channel configurations for concrete runs: one that shows every warning,
  as a test does that records warnings, one that escalates every warning, and one
  where the host has muted experimental warnings the way the module's help text
  tells it to.
\<close>

definition recording :: warnings_state where
  "recording = \<lparr>filters = [(Always, Warning)], defaultaction = Always, shown = []\<rparr>"

definition escalating :: warnings_state where
  "escalating = \<lparr>filters = [(Error, Warning)], defaultaction = Always, shown = []\<rparr>"


section \<open>The channel under the module's operations\<close>

lemma warn_filters [simp]: "filters (snd (warn text c lvl s)) = filters s"
  by (simp add: warn_def split: action.splits)

lemma warn_defaultaction [simp]: "defaultaction (snd (warn text c lvl s)) = defaultaction s"
  by (simp add: warn_def split: action.splits)

lemma warn_ignored:
  "action_for (filters s) (defaultaction s) c = Ignore \<Longrightarrow>
     warn text c lvl s = (if fits_ssize_t lvl then Inr () else Inl OverflowError, s)"
  by (simp add: warn_def)




lemma suppress_filters:
  "filters (snd (suppress_experimental_warnings block s)) = filters s"
  by (simp add: suppress_experimental_warnings_def catch_warnings_enter_def
      catch_warnings_exit_def split: prod.splits)

lemma suppress_fst:
  "fst (suppress_experimental_warnings block s) =
     fst (block (filterwarnings Ignore ExperimentalWarning s))"
  by (simp add: suppress_experimental_warnings_def catch_warnings_enter_def
      catch_warnings_exit_def split: prod.splits)


lemma suppress_defaultaction:
  "defaultaction (snd (suppress_experimental_warnings block s)) =
     defaultaction (snd (block (filterwarnings Ignore ExperimentalWarning s)))"
  by (simp add: suppress_experimental_warnings_def catch_warnings_enter_def
      catch_warnings_exit_def split: prod.splits)


lemma quiet_unfold:
  "quiet_experimental_warnings fn args = suppress_experimental_warnings (fn args)"
  by (simp add: quiet_experimental_warnings_def apply_context_manager_decorator_def)


text \<open>No body of the kind above changes the filter list or the default action.\<close>

lemma exec_config:
  "filters (snd (exec c s)) = filters s \<and> defaultaction (snd (exec c s)) = defaultaction s"
  "filters (snd (exec_body cs s)) = filters s \<and> defaultaction (snd (exec_body cs s)) = defaultaction s"
proof (induction c s and cs s rule: exec_exec_body.induct)
  case (1 subject additional lvl s)
  show ?case by (simp add: experimental_warning_def)
next
  case (2 subject version additional lvl s)
  show ?case by (simp add: deprecation_warning_def)
next
  case (3 e s)
  show ?case by simp
next
  case (4 body s)
  then show ?case by simp
next
  case (5 body s)
  then show ?case
    by (simp add: quiet_unfold suppress_filters suppress_defaultaction filterwarnings_def)
next
  case (6 s)
  show ?case by simp
next
  case (7 c cs s)
  obtain r s' where ex: "exec c s = (r, s')" by (cases "exec c s")
  show ?case
  proof (cases r)
    case (Inl e)
    with ex "7.IH"(1) show ?thesis by simp
  next
    case (Inr u)
    with ex "7.IH"(1) "7.IH"(2)[of r s' u] show ?thesis by simp
  qed
qed







section \<open>Renamed parameters: the claims\<close>

text \<open>
  Claim C1. When both \<open>new_val\<close> and \<open>old_val\<close> are present (not \<^verbatim>\<open>None\<close>),
  \<open>normalize_renamed_param\<close> returns no value: it raises the check error whose
  text is \<^verbatim>\<open>Do not use deprecated "OLD" now that you are using "NEW".\<close> with the
  two argument names filled in. This is so without a coercion and with any
  callable, whatever its truth value; the coercion is not called, and the channel
  state is untouched.
\<close>

theorem normalize_renamed_param_conflict:
  \<open>normalize_renamed_param (Some nv) (PyStr new_name) (Some ov) (PyStr old_name) NoCoercion s =
     (Inl (CheckError (''Do not use deprecated "'' @ old_name
                       @ ''" now that you are using "'' @ new_name @ ''".'')), s)
   \<and> normalize_renamed_param (Some nv) (PyStr new_name) (Some ov) (PyStr old_name)
         (Callable truth f) s =
     (Inl (CheckError (''Do not use deprecated "'' @ old_name
                       @ ''" now that you are using "'' @ new_name @ ''".'')), s)\<close>
  by (simp add: normalize_renamed_param_def str_param_def opt_callable_param_def failed_def)

theorem normalize_renamed_param_conflict_witness:
  \<open>normalize_renamed_param (Some True) (PyStr ''new_flag'') (Some False) (PyStr ''old_flag'')
       NoCoercion recording =
     (Inl (CheckError ''Do not use deprecated "old_flag" now that you are using "new_flag".''),
      recording)\<close>
  using normalize_renamed_param_conflict [of True "''new_flag''" False "''old_flag''" recording]
  by simp

text \<open>
  Claim C5, as amended. When \<open>old_val\<close> is present and \<open>new_val\<close> is absent, the
  result is \<open>old_val\<close> unchanged if no coercion was supplied, and whatever the
  call of the coercion on \<open>old_val\<close> gives if a coercion was supplied that counts
  as true, as every function object does. A callable that counts as false is
  treated like no coercion: it is not called and \<open>old_val\<close> comes back unchanged.
  The resolver adds no diagnostic of its own: the channel state is untouched
  where the coercion is not called, and is the one the coercion's call leaves
  otherwise.
\<close>

theorem normalize_renamed_param_old:
  "normalize_renamed_param None (PyStr new_name) (Some ov) (PyStr old_name) NoCoercion s =
     (Inr (Some ov), s)
   \<and> normalize_renamed_param None (PyStr new_name) (Some ov) (PyStr old_name) (Callable True f) s =
     f (Some ov) s
   \<and> normalize_renamed_param None (PyStr new_name) (Some ov) (PyStr old_name) (Callable False f) s =
     (Inr (Some ov), s)"
  by (simp add: normalize_renamed_param_def str_param_def opt_callable_param_def)

theorem normalize_renamed_param_old_witness:
  "normalize_renamed_param None (PyStr ''new_flag'') (Some False) (PyStr ''old_flag'')
       NoCoercion recording = (Inr (Some False), recording)
   \<and> normalize_renamed_param None (PyStr ''new_flag'') (Some False) (PyStr ''old_flag'')
       (Callable True (\<lambda>v s. (Inr (map_option Not v), s))) recording
     = (Inr (Some True), recording)"
  using normalize_renamed_param_old
    [of "''new_flag''" False "''old_flag''" recording "\<lambda>v s. (Inr (map_option Not v), s)"]
  by simp

text \<open>
  The claim as it was stated has the coercion applied whenever one was supplied.
  A callable object that counts as false passes the check of line 47 and is then
  skipped by the truth test of line 55: \<open>old_val\<close> comes back uncoerced.
\<close>

theorem normalize_renamed_param_false_callable:
  "normalize_renamed_param None (PyStr ''new_flag'') (Some False) (PyStr ''old_flag'')
       (Callable False (\<lambda>v s. (Inr (map_option Not v), s))) recording
     = (Inr (Some False), recording)
   \<and> normalize_renamed_param None (PyStr ''new_flag'') (Some False) (PyStr ''old_flag'')
       (Callable False (\<lambda>v s. (Inr (map_option Not v), s))) recording
     \<noteq> (\<lambda>v s. (Inr (map_option Not v), s)) (Some False) recording"
  by (simp add: normalize_renamed_param_def str_param_def opt_callable_param_def)

text \<open>
  Claim C6. When \<open>old_val\<close> is absent, the result is \<open>new_val\<close> as it was given,
  also when \<open>new_val\<close> is \<^verbatim>\<open>None\<close> itself; a coercion, whatever its truth value,
  is not called.
\<close>

theorem normalize_renamed_param_new:
  "normalize_renamed_param nv (PyStr new_name) None (PyStr old_name) NoCoercion s = (Inr nv, s)
   \<and> normalize_renamed_param nv (PyStr new_name) None (PyStr old_name) (Callable truth f) s
       = (Inr nv, s)"
  by (simp add: normalize_renamed_param_def str_param_def opt_callable_param_def)

theorem normalize_renamed_param_new_witness:
  "normalize_renamed_param (Some True) (PyStr ''new_flag'') None (PyStr ''old_flag'')
       NoCoercion recording = (Inr (Some True), recording)
   \<and> normalize_renamed_param (None :: bool option) (PyStr ''new_flag'') None (PyStr ''old_flag'')
       NoCoercion recording = (Inr None, recording)"
  using normalize_renamed_param_new [of "Some True" "''new_flag''" "''old_flag''" recording]
    normalize_renamed_param_new [of "None :: bool option" "''new_flag''" "''old_flag''" recording]
  by simp

section \<open>Deprecation and experimental warnings: the claims\<close>

text \<open>
  Claim C7, as amended. \<open>deprecation_warning\<close> hands the channel a
  \<open>DeprecationWarning\<close> whose message is
  \<^verbatim>\<open>{subject} is deprecated and will be removed in {breaking_version}.\<close> When
  an additional text is given and is not empty, the message is that string, a
  space and the additional text. When the additional text is absent or is the
  empty string, the message is that string alone.
\<close>

theorem deprecation_warning_message:
  "deprecation_warning subject breaking_version None lvl =
     warn (subject @ '' is deprecated and will be removed in '' @ breaking_version @ ''.'')
          DeprecationWarning lvl
   \<and> (t \<noteq> '''' \<longrightarrow>
       deprecation_warning subject breaking_version (Some t) lvl =
         warn (subject @ '' is deprecated and will be removed in '' @ breaking_version @ ''.''
               @ '' '' @ t) DeprecationWarning lvl)
   \<and> deprecation_warning subject breaking_version (Some '''') lvl =
       warn (subject @ '' is deprecated and will be removed in '' @ breaking_version @ ''.'')
            DeprecationWarning lvl"
  by (simp add: deprecation_warning_def)

theorem deprecation_warning_message_witness:
  "shown (snd (deprecation_warning ''Foo'' ''2.0'' None 3 recording)) =
     [\<lparr>d_message = ''Foo is deprecated and will be removed in 2.0.'',
       d_category = DeprecationWarning, d_stacklevel = 3\<rparr>]
   \<and> ''Use Bar.'' \<noteq> ''''
   \<and> shown (snd (deprecation_warning ''Foo'' ''2.0'' (Some ''Use Bar.'') 3 recording)) =
     [\<lparr>d_message = ''Foo is deprecated and will be removed in 2.0. Use Bar.'',
       d_category = DeprecationWarning, d_stacklevel = 3\<rparr>]"
  using deprecation_warning_message [of "''Foo''" "''2.0''" 3 "''Use Bar.''"]
  by (simp add: warn_def fits_ssize_t_def recording_def)

text \<open>
  The claim as it was stated has a space and the additional text follow whenever
  an additional text is supplied. With the empty string supplied the code adds
  nothing, not even the space.
\<close>

theorem deprecation_warning_empty_text:
  "shown (snd (deprecation_warning ''Foo'' ''2.0'' (Some '''') 3 recording)) =
     [\<lparr>d_message = ''Foo is deprecated and will be removed in 2.0.'',
       d_category = DeprecationWarning, d_stacklevel = 3\<rparr>]
   \<and> shown (snd (deprecation_warning ''Foo'' ''2.0'' (Some '''') 3 recording)) \<noteq>
     [\<lparr>d_message = ''Foo is deprecated and will be removed in 2.0.'' @ '' '' @ '''',
       d_category = DeprecationWarning, d_stacklevel = 3\<rparr>]"
  by (simp add: deprecation_warning_def warn_def fits_ssize_t_def recording_def)

text \<open>
  Claim C8. \<open>experimental_warning\<close> hands the channel an
  \<open>ExperimentalWarning\<close> whose message starts with
  \<^verbatim>\<open>{subject} is experimental. It may break in future versions, even between dot releases.\<close>
  followed, when an additional text is given, by a space and that text, and ends
  with the fixed help text. The help text names \<^verbatim>\<open>warnings.filterwarnings\<close> and
  \<^verbatim>\<open>ExperimentalWarning\<close>. (With the empty string as additional text the
  message goes on with the space that precedes the help text, so the stated
  beginning holds there too.)
\<close>

theorem experimental_warning_message:
  "(\<exists>rest. experimental_warning subject additional lvl =
        warn (subject @ '' is experimental. It may break in future versions, even between dot releases.''
              @ (case additional of None \<Rightarrow> '''' | Some t \<Rightarrow> '' '' @ t) @ rest)
             ExperimentalWarning lvl
      \<and> suffix EXPERIMENTAL_WARNING_HELP rest)
   \<and> sublist ''warnings.filterwarnings'' EXPERIMENTAL_WARNING_HELP
   \<and> sublist ''ExperimentalWarning'' EXPERIMENTAL_WARNING_HELP"
proof (intro conjI)
  show "\<exists>rest. experimental_warning subject additional lvl =
        warn (subject @ '' is experimental. It may break in future versions, even between dot releases.''
              @ (case additional of None \<Rightarrow> '''' | Some t \<Rightarrow> '' '' @ t) @ rest)
             ExperimentalWarning lvl
      \<and> suffix EXPERIMENTAL_WARNING_HELP rest"
  proof (cases additional)
    case None
    then show ?thesis
      by (intro exI[of _ "'' '' @ EXPERIMENTAL_WARNING_HELP"])
         (simp add: experimental_warning_def suffix_def)
  next
    case (Some t)
    show ?thesis
    proof (cases "t = ''''")
      case True
      with Some show ?thesis
        by (intro exI[of _ "EXPERIMENTAL_WARNING_HELP"]) (simp add: experimental_warning_def)
    next
      case False
      with Some show ?thesis
        by (intro exI[of _ "'' '' @ EXPERIMENTAL_WARNING_HELP"])
           (simp add: experimental_warning_def suffix_def)
    qed
  qed
next
  have "EXPERIMENTAL_WARNING_HELP =
      ''To mute warnings for experimental functionality, invoke '' @ ''warnings.filterwarnings''
      @ drop 79 EXPERIMENTAL_WARNING_HELP"
    by (simp add: EXPERIMENTAL_WARNING_HELP_def)
  then show "sublist ''warnings.filterwarnings'' EXPERIMENTAL_WARNING_HELP"
    unfolding sublist_def by blast
next
  have "EXPERIMENTAL_WARNING_HELP =
      take 107 EXPERIMENTAL_WARNING_HELP @ ''ExperimentalWarning''
      @ drop 126 EXPERIMENTAL_WARNING_HELP"
    by (simp add: EXPERIMENTAL_WARNING_HELP_def)
  then show "sublist ''ExperimentalWarning'' EXPERIMENTAL_WARNING_HELP"
    unfolding sublist_def by blast
qed

theorem experimental_warning_message_witness:
  \<open>shown (snd (experimental_warning ''Baz'' None 3 recording)) =
     [\<lparr>d_message = ''Baz is experimental. It may break in future versions, even between dot releases. To mute warnings for experimental functionality, invoke warnings.filterwarnings("ignore", category=dagster.ExperimentalWarning) or use one of the other methods described at https://docs.python.org/3/library/warnings.html#describing-warning-filters.'',
       d_category = ExperimentalWarning, d_stacklevel = 3\<rparr>]
   \<and> sublist ''ExperimentalWarning'' EXPERIMENTAL_WARNING_HELP\<close>
  using experimental_warning_message [of "''Baz''" None 3]
  by (simp add: experimental_warning_def EXPERIMENTAL_WARNING_HELP_def warn_def
      fits_ssize_t_def recording_def)

text \<open>
  Claim C9, as amended. With a stack level that the interpreter accepts (from
  \<open>- 2^63\<close> up to \<open>2^63 - 1\<close>), \<open>deprecation_warning\<close> and
  \<open>experimental_warning\<close> raise nothing of their own: for every subject, version
  and additional text and every channel state the call returns normally unless
  the channel's action for the category is to escalate; then the exception is the
  escalated warning itself and the channel state is untouched. With a stack level
  outside that range both raise \<^verbatim>\<open>OverflowError\<close>, whatever the channel is
  set to.
\<close>

theorem warnings_raise_only_escalated:
  "(fits_ssize_t lvl \<and> action_for (filters s) (defaultaction s) DeprecationWarning \<noteq> Error \<longrightarrow>
      fst (deprecation_warning subject version additional lvl s) = Inr ())
   \<and> (fits_ssize_t lvl \<and> action_for (filters s) (defaultaction s) DeprecationWarning = Error \<longrightarrow>
      (\<exists>text. deprecation_warning subject version additional lvl s =
                (Inl (WarningRaised DeprecationWarning text), s)))
   \<and> (fits_ssize_t lvl \<and> action_for (filters s) (defaultaction s) ExperimentalWarning \<noteq> Error \<longrightarrow>
      fst (experimental_warning subject additional lvl s) = Inr ())
   \<and> (fits_ssize_t lvl \<and> action_for (filters s) (defaultaction s) ExperimentalWarning = Error \<longrightarrow>
      (\<exists>text. experimental_warning subject additional lvl s =
                (Inl (WarningRaised ExperimentalWarning text), s)))
   \<and> (\<not> fits_ssize_t lvl \<longrightarrow>
        deprecation_warning subject version additional lvl s = (Inl OverflowError, s)
        \<and> experimental_warning subject additional lvl s = (Inl OverflowError, s))"
  by (simp add: deprecation_warning_def experimental_warning_def warn_def split: action.splits)

theorem warnings_raise_only_escalated_witness:
  "fits_ssize_t 3
   \<and> action_for (filters recording) (defaultaction recording) DeprecationWarning \<noteq> Error
   \<and> fst (deprecation_warning ''Foo'' ''2.0'' None 3 recording) = Inr ()
   \<and> action_for (filters recording) (defaultaction recording) ExperimentalWarning \<noteq> Error
   \<and> fst (experimental_warning ''Foo'' None 3 recording) = Inr ()
   \<and> action_for (filters escalating) (defaultaction escalating) DeprecationWarning = Error
   \<and> deprecation_warning ''Foo'' ''2.0'' None 3 escalating =
       (Inl (WarningRaised DeprecationWarning ''Foo is deprecated and will be removed in 2.0.''),
        escalating)
   \<and> action_for (filters escalating) (defaultaction escalating) ExperimentalWarning = Error
   \<and> (\<exists>text. experimental_warning ''Foo'' None 3 escalating =
         (Inl (WarningRaised ExperimentalWarning text), escalating))
   \<and> \<not> fits_ssize_t (2 ^ 63)
   \<and> experimental_warning ''Foo'' None (2 ^ 63) escalating = (Inl OverflowError, escalating)"
proof -
  have f: "fits_ssize_t 3" "\<not> fits_ssize_t (2 ^ 63)"
    by (simp_all add: fits_ssize_t_def)
  have r: "action_for (filters recording) (defaultaction recording) DeprecationWarning \<noteq> Error"
    "action_for (filters recording) (defaultaction recording) ExperimentalWarning \<noteq> Error"
    by (simp_all add: recording_def)
  have e: "action_for (filters escalating) (defaultaction escalating) DeprecationWarning = Error"
    "action_for (filters escalating) (defaultaction escalating) ExperimentalWarning = Error"
    by (simp_all add: escalating_def)
  have d: "deprecation_warning ''Foo'' ''2.0'' None 3 escalating =
       (Inl (WarningRaised DeprecationWarning ''Foo is deprecated and will be removed in 2.0.''),
        escalating)"
    by (simp add: deprecation_warning_def warn_def fits_ssize_t_def escalating_def)
  from warnings_raise_only_escalated [of 3 recording "''Foo''" "''2.0''" None]
    warnings_raise_only_escalated [of 3 escalating "''Foo''" "''2.0''" None]
    warnings_raise_only_escalated [of "2 ^ 63" escalating "''Foo''" "''2.0''" None]
    f r e d
  show ?thesis by simp
qed

text \<open>
  The claim as it was stated has the two operations never raise, for every input.
  On a channel that shows every warning, a stack level of \<open>2^63\<close> makes
  \<^verbatim>\<open>warnings.warn\<close> raise \<^verbatim>\<open>OverflowError\<close>, and nothing is shown.
\<close>

theorem deprecation_warning_overflow:
  "action_for (filters recording) (defaultaction recording) DeprecationWarning = Always
   \<and> deprecation_warning ''Foo'' ''2.0'' None (2 ^ 63) recording = (Inl OverflowError, recording)"
  by (simp add: deprecation_warning_def warn_def fits_ssize_t_def recording_def)

section \<open>Quieting experimental warnings: the claims\<close>

text \<open>
  Claim C2. Whatever the wrapped function does, its failures included, and even
  if it changes the filter list itself, the filter list after a call of the
  decorated function is the filter list before the call. The outcome of the call,
  a raised exception in particular, is the outcome of the original function run
  inside the scope, where the entry that ignores \<open>ExperimentalWarning\<close> is at
  the front of the list.
\<close>

theorem quiet_restores_filters:
  "filters (snd (quiet_experimental_warnings fn args s)) = filters s
   \<and> fst (quiet_experimental_warnings fn args s) =
       fst (fn args (filterwarnings Ignore ExperimentalWarning s))
   \<and> filters (filterwarnings Ignore ExperimentalWarning s) =
       (Ignore, ExperimentalWarning) # remove1 (Ignore, ExperimentalWarning) (filters s)"
  by (simp add: quiet_unfold suppress_filters suppress_fst) (simp add: filterwarnings_def)

theorem quiet_restores_filters_witness:
  "fst (quiet_experimental_warnings
          (\<lambda>_ s. (Inl (OtherError ''boom'') :: exn + unit,
                   filterwarnings Always ExperimentalWarning s)) () recording)
     = Inl (OtherError ''boom'')
   \<and> filters (snd (quiet_experimental_warnings
          (\<lambda>_ s. (Inl (OtherError ''boom'') :: exn + unit,
                   filterwarnings Always ExperimentalWarning s)) () recording))
     = [(Always, Warning)]"
  using quiet_restores_filters
    [of "\<lambda>_ s. (Inl (OtherError ''boom'') :: exn + unit,
                 filterwarnings Always ExperimentalWarning s)" "()" recording]
  by (simp add: recording_def)




text \<open>
  Claim C4. Inside an outer scope, after any statements \<open>pre\<close> of the outer body,
  a call of a decorated function \<open>inner\<close> (whatever it does) leaves the filter
  list as the outer scope set it up, the ignoring entry at its front, so the
  channel's action for an experimental warning is still to drop it: a call of
  \<open>experimental_warning\<close> right after the inner call returns shows nothing and
  returns normally (or, with a stack level the interpreter refuses, raises
  \<^verbatim>\<open>OverflowError\<close>).
\<close>

theorem nested_quiet_keeps_outer:
  "filters (snd (quiet_experimental_warnings inner args
       (snd (exec_body pre (filterwarnings Ignore ExperimentalWarning s)))))
     = (Ignore, ExperimentalWarning) # remove1 (Ignore, ExperimentalWarning) (filters s)
   \<and> action_for
        (filters (snd (quiet_experimental_warnings inner args
           (snd (exec_body pre (filterwarnings Ignore ExperimentalWarning s))))))
        (defaultaction (snd (quiet_experimental_warnings inner args
           (snd (exec_body pre (filterwarnings Ignore ExperimentalWarning s))))))
        ExperimentalWarning = Ignore
   \<and> experimental_warning subject additional lvl
        (snd (quiet_experimental_warnings inner args
           (snd (exec_body pre (filterwarnings Ignore ExperimentalWarning s)))))
      = (if fits_ssize_t lvl then Inr () else Inl OverflowError,
         snd (quiet_experimental_warnings inner args
                (snd (exec_body pre (filterwarnings Ignore ExperimentalWarning s)))))"
proof -
  let ?s1 = "snd (exec_body pre (filterwarnings Ignore ExperimentalWarning s))"
  let ?s2 = "snd (quiet_experimental_warnings inner args ?s1)"
  have f1: "filters ?s1 = (Ignore, ExperimentalWarning) # remove1 (Ignore, ExperimentalWarning) (filters s)"
    by (simp add: exec_config(2)) (simp add: filterwarnings_def)
  have f: "filters ?s2 = filters ?s1"
    by (simp add: quiet_unfold suppress_filters)
  have a: "action_for (filters ?s2) (defaultaction ?s2) ExperimentalWarning = Ignore"
    by (simp add: f f1)
  then have "experimental_warning subject additional lvl ?s2 =
               (if fits_ssize_t lvl then Inr () else Inl OverflowError, ?s2)"
    by (simp add: experimental_warning_def warn_ignored)
  with f f1 a show ?thesis by simp
qed

theorem nested_quiet_keeps_outer_witness:
  "filters (snd (quiet_experimental_warnings (\<lambda>_. experimental_warning ''Inner'' None 3) ()
       (snd (exec_body [DeprecationCall ''Foo'' ''2.0'' None 3]
               (filterwarnings Ignore ExperimentalWarning recording)))))
     = [(Ignore, ExperimentalWarning), (Always, Warning)]
   \<and> exec (QuietCall [QuietCall [ExperimentalCall ''Inner'' None 3],
                        ExperimentalCall ''Outer'' None 3]) recording = (Inr (), recording)"
proof -
  have a: "remove1 (Ignore, ExperimentalWarning) (filters recording) = [(Always, Warning)]"
    by (simp add: recording_def)
  have b: "exec (QuietCall [QuietCall [ExperimentalCall ''Inner'' None 3],
                        ExperimentalCall ''Outer'' None 3]) recording = (Inr (), recording)"
    by (simp add: quiet_unfold suppress_experimental_warnings_def catch_warnings_enter_def
        catch_warnings_exit_def filterwarnings_def experimental_warning_def warn_def
        fits_ssize_t_def recording_def)
  from nested_quiet_keeps_outer
    [of "\<lambda>_. experimental_warning ''Inner'' None 3" "()"
        "[DeprecationCall ''Foo'' ''2.0'' None 3]" recording] a b
  show ?thesis by simp
qed

end
